theory Spec2Isabelle
  imports Main
begin

section \<open>The fixture generator \<open>backend/create_test_pdf.py\<close>\<close>

text \<open>
  The script builds a list of layout blocks (the \<open>story\<close>) from a literal list of
  provider dictionaries, hands the list to the layout library in one call and prints
  status lines. The model keeps the script's statements in source order. The layout
  library is not part of the repository: what it does with the blocks (page layout, PDF
  serialisation) is not modelled, a written file is recorded as the list of blocks that
  was handed over, and whether the library call returns or raises is a parameter. What
  the console does with a printed line belongs to the world of the run.
\<close>

subsection \<open>Data\<close>

text \<open>
  Styles: an entry of the library's sample style sheet (\<open>styles['Heading2']\<close>), or a
  \<open>ParagraphStyle\<close> built by the script (name, parent, font size, text colour, space
  after).
\<close>

datatype style =
    SheetStyle string
  | ParagraphStyle string style nat string nat

text \<open>
  Blocks: \<open>Paragraph(text, style)\<close> and \<open>Spacer(width, height)\<close>. The source writes a
  spacer's height as a decimal fraction times the library constant \<open>inch\<close>
  (\<open>0.3*inch\<close>); the model keeps the number of tenths of an inch and does not compute
  the floating-point product.
\<close>

datatype flowable =
    Paragraph string style
  | Spacer nat nat

datatype pagesize = letter

record doc_template =
  filename :: string
  pagesize :: pagesize

text \<open>A provider is a Python dictionary from field names to strings.\<close>

type_synonym provider = "string \<rightharpoonup> string"

text \<open>
  Exceptions: the \<open>KeyError\<close> of a dictionary subscript, the \<open>UnicodeEncodeError\<close>
  of a \<open>print\<close> whose line the console's encoding cannot represent, and whatever else
  the console or the layout library raises (for instance when the file cannot be
  written).
\<close>

datatype exn =
    KeyError string
  | UnicodeEncodeError
  | RenderError string

text \<open>
  What a run can see from outside: command-line arguments, environment variables, the
  files of the working directory (a path maps to the blocks written to it), and the
  console: for a line, \<open>None\<close> when standard output takes it, \<open>Some e\<close> when writing it
  raises \<open>e\<close> (as an encoding that lacks one of its characters does).
\<close>

record world =
  argv :: "string list"
  environ :: "string \<rightharpoonup> string"
  disk :: "string \<rightharpoonup> flowable list"
  console :: "string \<Rightarrow> exn option"

text \<open>
  The mutable state of a run: the list object \<open>story\<close>, the list object
  \<open>providers\<close>, the files, and the lines printed so far.
\<close>

record state =
  story :: "flowable list"
  providers :: "provider list"
  files :: "string \<rightharpoonup> flowable list"
  stdout :: "string list"

text \<open>
  A statement turns a state into a state and says whether it raised. A raised
  exception is never caught (the script has no \<open>try\<close>), so sequencing stops at it.
\<close>

type_synonym stmt = "state \<Rightarrow> exn option \<times> state"

definition seq :: "stmt \<Rightarrow> stmt \<Rightarrow> stmt" where
  "seq a b s = (case a s of (None, s') \<Rightarrow> b s' | (Some e, s') \<Rightarrow> (Some e, s'))"

fun for_each :: "('a \<Rightarrow> stmt) \<Rightarrow> 'a list \<Rightarrow> stmt" where
  "for_each body [] s = (None, s)"
| "for_each body (x # xs) s =
     (case body x s of (None, s') \<Rightarrow> for_each body xs s' | (Some e, s') \<Rightarrow> (Some e, s'))"

subsection \<open>Expressions\<close>

text \<open>\<open>str(n)\<close> for a non-negative integer, as the f-strings format \<open>i\<close> and \<open>len(providers)\<close>.\<close>

definition digit :: "nat \<Rightarrow> char" where
  "digit d = ''0123456789'' ! d"

fun str :: "nat \<Rightarrow> string" where
  "str n = (if n < 10 then [digit n] else str (n div 10) @ [digit (n mod 10)])"

declare str.simps [simp del]

text \<open>\<open>d[k]\<close>: the value, or \<open>KeyError\<close> when the key is missing.\<close>

definition subscript :: "provider \<Rightarrow> string \<Rightarrow> exn + string" where
  "subscript d k = (case d k of None \<Rightarrow> Inl (KeyError k) | Some v \<Rightarrow> Inr v)"

text \<open>
  \<open>Paragraph(text, style)\<close>, where evaluating the text may raise. The library reads
  the text as markup and rejects markup that is not well formed; its parser is not part
  of the repository and is not modelled, so this is the constructor on texts the parser
  takes, as it takes every text the script builds from its literals. The properties
  below are stated of the script's own data.
\<close>

definition mk_paragraph :: "exn + string \<Rightarrow> style \<Rightarrow> exn + flowable" where
  "mk_paragraph txt st = (case txt of Inl e \<Rightarrow> Inl e | Inr t \<Rightarrow> Inr (Paragraph t st))"

text \<open>An f-string \<open>f"<prefix>{e}"\<close> around an expression that may raise.\<close>

definition fstring :: "string \<Rightarrow> exn + string \<Rightarrow> exn + string" where
  "fstring prefix e = (case e of Inl x \<Rightarrow> Inl x | Inr v \<Rightarrow> Inr (prefix @ v))"

subsection \<open>Statements\<close>

text \<open>\<open>story.append(x)\<close>: the argument is evaluated first; if that raises, nothing is appended.\<close>

definition story_append :: "exn + flowable \<Rightarrow> stmt" where
  "story_append arg s =
     (case arg of Inl e \<Rightarrow> (Some e, s) | Inr f \<Rightarrow> (None, s\<lparr>story := story s @ [f]\<rparr>))"

text \<open>
  \<open>print(line)\<close> on the console \<open>con\<close>: the line is encoded as a whole before any of
  it is written, so a line the console refuses leaves the output as it was.
\<close>

definition print :: "(string \<Rightarrow> exn option) \<Rightarrow> string \<Rightarrow> stmt" where
  "print con line s =
     (case con line of
        Some e \<Rightarrow> (Some e, s)
      | None \<Rightarrow> (None, s\<lparr>stdout := stdout s @ [line]\<rparr>))"

text \<open>
  The behaviour of the library call \<open>doc.build(story)\<close>, a parameter of a run: it
  returns and the file is written, or it raises an exception after it has taken some
  number of blocks off the list.
\<close>

datatype build_result =
    Written
  | Raised exn nat

text \<open>
  \<open>doc.build(story)\<close>. The library consumes the list object it is given: it removes
  each block from the front as it lays it out. When the call returns, the file named by
  the template holds the blocks and the list is empty. When it raises, the list has
  lost the blocks taken so far (all of them when it is the final write that fails);
  what a failing call leaves on disk is not modelled.
\<close>

definition build :: "build_result \<Rightarrow> doc_template \<Rightarrow> stmt" where
  "build lib d s =
     (case lib of
        Raised e n \<Rightarrow> (Some e, s\<lparr>story := drop n (story s)\<rparr>)
      | Written \<Rightarrow> (None, s\<lparr>files := (files s)(filename d \<mapsto> story s), story := []\<rparr>))"

subsection \<open>The script\<close>

text \<open>Lines 11 and 12.\<close>

definition pdf_file :: string where
  "pdf_file = ''test_providers.pdf''"

definition doc :: doc_template where
  "doc = \<lparr>filename = pdf_file, pagesize = letter\<rparr>"

text \<open>Lines 14 to 23.\<close>

definition styles :: "string \<Rightarrow> style" where
  "styles name = SheetStyle name"

definition title_style :: style where
  "title_style = ParagraphStyle ''CustomTitle'' (styles ''Heading1'') 16 ''#000000'' 12"

text \<open>Lines 30 to 63: the list literal.\<close>

definition providers_literal :: "provider list" where
  "providers_literal =
     [ [''name'' \<mapsto> ''Dr. John Smith'',
        ''npi'' \<mapsto> ''NPI: 1234567890'',
        ''phone'' \<mapsto> ''Phone: (555) 123-4567'',
        ''address'' \<mapsto> ''123 Main Street'',
        ''city'' \<mapsto> ''New York, NY 10001'',
        ''specialty'' \<mapsto> ''Cardiologist''],
       [''name'' \<mapsto> ''Dr. Jane Doe'',
        ''npi'' \<mapsto> ''NPI: 0987654321'',
        ''phone'' \<mapsto> ''Phone: (555) 987-6543'',
        ''address'' \<mapsto> ''456 Oak Avenue'',
        ''city'' \<mapsto> ''Los Angeles, CA 90001'',
        ''specialty'' \<mapsto> ''Physician''],
       [''name'' \<mapsto> ''Dr. Michael Johnson'',
        ''npi'' \<mapsto> ''NPI: 1111111111'',
        ''phone'' \<mapsto> ''Phone: (555) 111-2222'',
        ''address'' \<mapsto> ''789 Elm Street'',
        ''city'' \<mapsto> ''Chicago, IL 60601'',
        ''specialty'' \<mapsto> ''Dentist''],
       [''name'' \<mapsto> ''Dr. Sarah Williams'',
        ''npi'' \<mapsto> ''NPI: 2222222222'',
        ''phone'' \<mapsto> ''Phone: (555) 222-3333'',
        ''address'' \<mapsto> ''321 Pine Road'',
        ''city'' \<mapsto> ''Houston, TX 77001'',
        ''specialty'' \<mapsto> ''Surgeon''] ]"

definition assign_providers :: stmt where
  "assign_providers s = (None, s\<lparr>providers := providers_literal\<rparr>)"

text \<open>Lines 67 to 74: the body of the loop, for the pair \<open>(i, provider)\<close>.\<close>

definition loop_body :: "nat \<times> provider \<Rightarrow> stmt" where
  "loop_body ip =
     (case ip of (i, provider) \<Rightarrow>
        seq (story_append (mk_paragraph (fstring (str i @ ''. '') (subscript provider ''name''))
                                     (styles ''Heading2'')))
       (seq (story_append (Inr (Spacer 1 1)))
       (seq (story_append (mk_paragraph (subscript provider ''npi'') (styles ''Normal'')))
       (seq (story_append (mk_paragraph (subscript provider ''phone'') (styles ''Normal'')))
       (seq (story_append (mk_paragraph (subscript provider ''address'') (styles ''Normal'')))
       (seq (story_append (mk_paragraph (subscript provider ''city'') (styles ''Normal'')))
       (seq (story_append (mk_paragraph (fstring ''<b>Specialty:</b> ''
                                                (subscript provider ''specialty''))
                                     (styles ''Normal'')))
            (story_append (Inr (Spacer 1 2))))))))))"

text \<open>Line 66: \<open>for i, provider in enumerate(providers, 1)\<close>.\<close>

definition add_providers :: stmt where
  "add_providers s = for_each loop_body (List.enumerate 1 (providers s)) s"

text \<open>
  Lines 78 to 80, on the console \<open>con\<close>. The first line starts with the check mark
  U+2713, written here as the three bytes of its UTF-8 encoding.
\<close>

definition check_mark :: string where
  "check_mark = [CHR 0xE2, CHR 0x9C, CHR 0x93]"

definition report :: "(string \<Rightarrow> exn option) \<Rightarrow> stmt" where
  "report con =
     seq (print con (check_mark @ '' Test PDF created: '' @ pdf_file))
    (seq (\<lambda>s. print con
                 (''  Contains '' @ str (length (providers s)) @ '' sample providers'') s)
         (print con ''  Upload this file to test the PDF OCR feature''))"

text \<open>
  A run starts with an empty story (line 13), no provider bound yet (the empty list
  stands for the unbound name until line 30 assigns it), the files of the working
  directory and nothing printed.
\<close>

definition start :: "world \<Rightarrow> state" where
  "start w = \<lparr>story = [], providers = [], files = disk w, stdout = []\<rparr>"

text \<open>Lines 26 to 74: everything that assembles the story, up to the layout call.\<close>

definition assemble :: stmt where
  "assemble =
     seq (story_append (mk_paragraph (Inr ''Provider Directory'') title_style))
    (seq (story_append (Inr (Spacer 1 3)))
    (seq assign_providers
         add_providers))"

text \<open>
  The whole script: the story is assembled, handed to the layout call of line 77, and
  the three lines are printed.
\<close>

definition main :: "build_result \<Rightarrow> world \<Rightarrow> exn option \<times> state" where
  "main lib w = seq assemble (seq (build lib doc) (report (console w))) (start w)"

subsection \<open>Notions used to state the properties\<close>

text \<open>The six keys of a provider dictionary.\<close>

definition provider_fields :: "string set" where
  "provider_fields = {''name'', ''npi'', ''phone'', ''address'', ''city'', ''specialty''}"

text \<open>The two blocks appended by lines 26 and 27.\<close>

definition title_blocks :: "flowable list" where
  "title_blocks = [Paragraph ''Provider Directory'' title_style, Spacer 1 3]"

text \<open>
  The blocks of one provider entry, for the index \<open>i\<close> and a dictionary \<open>p\<close> that has
  the six keys: what one pass through lines 67 to 74 appends.
\<close>

definition block :: "nat \<times> provider \<Rightarrow> flowable list" where
  "block ip =
     (case ip of (i, p) \<Rightarrow>
        [Paragraph (str i @ ''. '' @ the (p ''name'')) (SheetStyle ''Heading2''),
         Spacer 1 1,
         Paragraph (the (p ''npi'')) (SheetStyle ''Normal''),
         Paragraph (the (p ''phone'')) (SheetStyle ''Normal''),
         Paragraph (the (p ''address'')) (SheetStyle ''Normal''),
         Paragraph (the (p ''city'')) (SheetStyle ''Normal''),
         Paragraph (''<b>Specialty:</b> '' @ the (p ''specialty'')) (SheetStyle ''Normal''),
         Spacer 1 2])"

text \<open>
  The number of provider entries of a document: every entry starts with one paragraph
  in the style \<open>Heading2\<close>, and nothing else uses that style.
\<close>

fun is_entry_heading :: "flowable \<Rightarrow> bool" where
  "is_entry_heading (Paragraph t st) = (st = SheetStyle ''Heading2'')"
| "is_entry_heading (Spacer w h) = False"

definition entry_count :: "flowable list \<Rightarrow> nat" where
  "entry_count d = length (filter is_entry_heading d)"

text \<open>
  ASCII lower case, to compare the specialty labels of the source (which are
  capitalised) with the words of the data model.
\<close>

definition lower_case :: "char \<Rightarrow> char" where
  "lower_case c =
     (case map_of (zip ''ABCDEFGHIJKLMNOPQRSTUVWXYZ'' ''abcdefghijklmnopqrstuvwxyz'') c of
        None \<Rightarrow> c
      | Some l \<Rightarrow> l)"


definition utf8_world :: world where
  "utf8_world =
     \<lparr>argv = [], environ = Map.empty, disk = Map.empty, console = (\<lambda>line. None)\<rparr>"


section \<open>Properties\<close>

subsection \<open>Single statements\<close>

lemma append_Inr: "story_append (Inr f) s = (None, s\<lparr>story := story s @ [f]\<rparr>)"
  by (simp add: story_append_def)

lemma append_subscript:
  "p k = Some v \<Longrightarrow>
   story_append (mk_paragraph (subscript p k) st) s =
     (None, s\<lparr>story := story s @ [Paragraph v st]\<rparr>)"
  by (simp add: story_append_def mk_paragraph_def subscript_def)

lemma append_fstring:
  "p k = Some v \<Longrightarrow>
   story_append (mk_paragraph (fstring pre (subscript p k)) st) s =
     (None, s\<lparr>story := story s @ [Paragraph (pre @ v) st]\<rparr>)"
  by (simp add: story_append_def mk_paragraph_def subscript_def fstring_def)

subsection \<open>The loop\<close>

lemma loop_body_ok:
  assumes "provider_fields \<subseteq> dom p"
  shows "loop_body (i, p) s = (None, s\<lparr>story := story s @ block (i, p)\<rparr>)"
proof -
  have has: "\<And>k. k \<in> provider_fields \<Longrightarrow> \<exists>v. p k = Some v"
    using assms by blast
  obtain a where a: "p ''name'' = Some a"
    using has [of "''name''"] by (auto simp: provider_fields_def)
  obtain b where b: "p ''npi'' = Some b"
    using has [of "''npi''"] by (auto simp: provider_fields_def)
  obtain c where c: "p ''phone'' = Some c"
    using has [of "''phone''"] by (auto simp: provider_fields_def)
  obtain d where d: "p ''address'' = Some d"
    using has [of "''address''"] by (auto simp: provider_fields_def)
  obtain e where e: "p ''city'' = Some e"
    using has [of "''city''"] by (auto simp: provider_fields_def)
  obtain f where f: "p ''specialty'' = Some f"
    using has [of "''specialty''"] by (auto simp: provider_fields_def)
  show ?thesis
    by (simp add: loop_body_def seq_def append_subscript append_fstring append_Inr
        a b c d e f block_def styles_def)
qed

lemma for_each_loop_body:
  "\<forall>p \<in> set ps. provider_fields \<subseteq> dom p \<Longrightarrow>
   for_each loop_body (List.enumerate n ps) s =
     (None, s\<lparr>story := story s @ concat (map block (List.enumerate n ps))\<rparr>)"
proof (induction ps arbitrary: n s)
  case Nil
  then show ?case by simp
next
  case (Cons p ps)
  then show ?case by (simp add: loop_body_ok)
qed

lemma add_providers_ok:
  "\<forall>p \<in> set (providers s). provider_fields \<subseteq> dom p \<Longrightarrow>
   add_providers s =
     (None, s\<lparr>story := story s @ concat (map block (List.enumerate 1 (providers s)))\<rparr>)"
  by (simp add: add_providers_def for_each_loop_body)

lemma length_block: "length (block ip) = 8"
  by (cases ip) (simp add: block_def)

lemma length_blocks: "length (concat (map block (List.enumerate n ps))) = 8 * length ps"
  by (induction ps arbitrary: n) (simp_all add: length_block)

lemma nth_block:
  "i < length ps \<Longrightarrow>
   take 8 (drop (8 * i) (concat (map block (List.enumerate n ps)))) = block (n + i, ps ! i)"
proof (induction ps arbitrary: n i)
  case Nil
  then show ?case by simp
next
  case (Cons p ps)
  show ?case
  proof (cases i)
    case 0
    then show ?thesis by (simp add: length_block)
  next
    case (Suc j)
    with Cons.prems have "j < length ps" by simp
    from Cons.IH [OF this, of "Suc n"] Suc show ?thesis
      by (simp add: length_block)
  qed
qed

subsection \<open>The literal list\<close>

lemma providers_literal_fields:
  "\<forall>p \<in> set providers_literal. provider_fields \<subseteq> dom p"
  by (simp add: providers_literal_def provider_fields_def)

lemma length_providers_literal: "length providers_literal = 4"
  by (simp add: providers_literal_def)

lemma blocks_literal:
  "concat (map block (List.enumerate 1 providers_literal)) =
     [Paragraph ''1. Dr. John Smith'' (SheetStyle ''Heading2''),
      Spacer 1 1,
      Paragraph ''NPI: 1234567890'' (SheetStyle ''Normal''),
      Paragraph ''Phone: (555) 123-4567'' (SheetStyle ''Normal''),
      Paragraph ''123 Main Street'' (SheetStyle ''Normal''),
      Paragraph ''New York, NY 10001'' (SheetStyle ''Normal''),
      Paragraph ''<b>Specialty:</b> Cardiologist'' (SheetStyle ''Normal''),
      Spacer 1 2,
      Paragraph ''2. Dr. Jane Doe'' (SheetStyle ''Heading2''),
      Spacer 1 1,
      Paragraph ''NPI: 0987654321'' (SheetStyle ''Normal''),
      Paragraph ''Phone: (555) 987-6543'' (SheetStyle ''Normal''),
      Paragraph ''456 Oak Avenue'' (SheetStyle ''Normal''),
      Paragraph ''Los Angeles, CA 90001'' (SheetStyle ''Normal''),
      Paragraph ''<b>Specialty:</b> Physician'' (SheetStyle ''Normal''),
      Spacer 1 2,
      Paragraph ''3. Dr. Michael Johnson'' (SheetStyle ''Heading2''),
      Spacer 1 1,
      Paragraph ''NPI: 1111111111'' (SheetStyle ''Normal''),
      Paragraph ''Phone: (555) 111-2222'' (SheetStyle ''Normal''),
      Paragraph ''789 Elm Street'' (SheetStyle ''Normal''),
      Paragraph ''Chicago, IL 60601'' (SheetStyle ''Normal''),
      Paragraph ''<b>Specialty:</b> Dentist'' (SheetStyle ''Normal''),
      Spacer 1 2,
      Paragraph ''4. Dr. Sarah Williams'' (SheetStyle ''Heading2''),
      Spacer 1 1,
      Paragraph ''NPI: 2222222222'' (SheetStyle ''Normal''),
      Paragraph ''Phone: (555) 222-3333'' (SheetStyle ''Normal''),
      Paragraph ''321 Pine Road'' (SheetStyle ''Normal''),
      Paragraph ''Houston, TX 77001'' (SheetStyle ''Normal''),
      Paragraph ''<b>Specialty:</b> Surgeon'' (SheetStyle ''Normal''),
      Spacer 1 2]"
  by (simp add: providers_literal_def block_def str.simps digit_def)

subsection \<open>Printing\<close>

lemma print_frame:
  "providers (snd (print con line s)) = providers s"
  "files (snd (print con line s)) = files s"
  by (simp_all add: print_def split: option.splits)

lemma report_providers: "providers (snd (report con s)) = providers s"
  by (simp add: report_def seq_def print_def split: option.splits)

lemma report_files: "files (snd (report con s)) = files s"
  by (simp add: report_def seq_def print_def split: option.splits)


lemma report_accepted:
  "con (check_mark @ '' Test PDF created: '' @ pdf_file) = None \<Longrightarrow>
   con (''  Contains '' @ str (length (providers s)) @ '' sample providers'') = None \<Longrightarrow>
   con ''  Upload this file to test the PDF OCR feature'' = None \<Longrightarrow>
   report con s =
     (None,
      s\<lparr>stdout := stdout s @
         [check_mark @ '' Test PDF created: '' @ pdf_file,
          ''  Contains '' @ str (length (providers s)) @ '' sample providers'',
          ''  Upload this file to test the PDF OCR feature'']\<rparr>)"
  by (simp add: report_def seq_def print_def)

lemma report_second_line:
  "con (check_mark @ '' Test PDF created: '' @ pdf_file) = None \<Longrightarrow>
   con (''  Contains '' @ str (length (providers s)) @ '' sample providers'') = None \<Longrightarrow>
   stdout s = [] \<Longrightarrow>
   stdout (snd (report con s)) ! 1 =
     ''  Contains '' @ str (length (providers s)) @ '' sample providers''"
  by (simp add: report_def seq_def print_def split: option.splits)


subsection \<open>The two ways the layout call ends\<close>

lemma assemble_start:
  "assemble (start w) =
     (None,
      \<lparr>story = title_blocks @ concat (map block (List.enumerate 1 providers_literal)),
       providers = providers_literal,
       files = disk w,
       stdout = []\<rparr>)"
  unfolding assemble_def start_def
  by (simp add: seq_def append_Inr mk_paragraph_def assign_providers_def add_providers_ok
      providers_literal_fields title_blocks_def)

lemma main_written:
  "main Written w =
     report (console w)
      \<lparr>story = [],
       providers = providers_literal,
       files = (disk w)(pdf_file \<mapsto>
                 title_blocks @ concat (map block (List.enumerate 1 providers_literal))),
       stdout = []\<rparr>"
  unfolding main_def
  by (simp add: seq_def assemble_start build_def doc_def)

lemma main_raised:
  "main (Raised e n) w =
     (Some e,
      \<lparr>story = drop n (title_blocks @ concat (map block (List.enumerate 1 providers_literal))),
       providers = providers_literal,
       files = disk w,
       stdout = []\<rparr>)"
  unfolding main_def
  by (simp add: seq_def assemble_start build_def)

lemma main_files:
  "files (snd (main Written w)) =
     (disk w)(pdf_file \<mapsto>
        title_blocks @ concat (map block (List.enumerate 1 providers_literal)))"
  by (simp add: main_written report_files)

lemma main_providers: "providers (snd (main lib w)) = providers_literal"
  by (cases lib) (simp_all add: main_written main_raised report_providers)

lemma str_four: "str (length providers_literal) = ''4''"
  by (simp add: length_providers_literal str.simps digit_def)

subsection \<open>What the statements leave alone\<close>

lemma story_append_providers: "providers (snd (story_append a s)) = providers s"
  by (simp add: story_append_def split: sum.splits)

lemma seq_providers:
  assumes "\<And>s. providers (snd (a s)) = providers s"
    and "\<And>s. providers (snd (b s)) = providers s"
  shows "providers (snd (seq a b s)) = providers s"
proof (cases "a s")
  case (Pair r s')
  with assms(1) [of s] have "providers s' = providers s" by simp
  with Pair assms(2) [of s'] show ?thesis
    by (cases r) (simp_all add: seq_def)
qed

lemma loop_body_providers: "providers (snd (loop_body ip s)) = providers s"
  by (cases ip) (simp add: loop_body_def seq_providers story_append_providers)

lemma for_each_providers:
  assumes "\<And>x s. providers (snd (body x s)) = providers s"
  shows "providers (snd (for_each body xs s)) = providers s"
proof (induction xs arbitrary: s)
  case Nil
  show ?case by simp
next
  case (Cons x xs)
  show ?case
  proof (cases "body x s")
    case (Pair r s')
    with assms [of x s] have "providers s' = providers s" by simp
    with Pair Cons.IH [of s'] show ?thesis
      by (cases r) simp_all
  qed
qed

subsection \<open>The generated document\<close>



subsection \<open>Console output\<close>

text \<open>
  C2, as stated: after the build, the console output is exactly two lines. It is
  not: on a console that takes every line the run prints a number of lines other than
  two.
\<close>

theorem console_two_lines_counterexample:
  "length (stdout (snd (main Written utf8_world))) \<noteq> 2"
  by (simp add: main_written report_accepted utf8_world_def)

text \<open>
  C2, amended: when the layout call returns and the console takes the lines, the
  console output is exactly three lines, in this order: the line that confirms the file
  creation and names the file, the line that reports the record count, and a line that
  tells the user to upload the file.
\<close>

theorem console_three_status_lines:
  assumes "console w
      ([CHR 0xE2, CHR 0x9C, CHR 0x93] @ '' Test PDF created: test_providers.pdf'') = None"
    and "console w ''  Contains 4 sample providers'' = None"
    and "console w ''  Upload this file to test the PDF OCR feature'' = None"
  shows "stdout (snd (main Written w)) =
     [[CHR 0xE2, CHR 0x9C, CHR 0x93] @ '' Test PDF created: test_providers.pdf'',
      ''  Contains 4 sample providers'',
      ''  Upload this file to test the PDF OCR feature'']"
proof -
  have "console w (check_mark @ '' Test PDF created: '' @ pdf_file) = None"
    using assms(1) by (simp add: check_mark_def pdf_file_def)
  moreover have "console w
      (''  Contains '' @ str (length providers_literal) @ '' sample providers'') = None"
    using assms(2) by (simp add: str_four)
  ultimately have "stdout (snd (main Written w)) =
     [check_mark @ '' Test PDF created: '' @ pdf_file,
      ''  Contains '' @ str (length providers_literal) @ '' sample providers'',
      ''  Upload this file to test the PDF OCR feature'']"
    using assms(3) by (simp add: main_written report_accepted)
  then show ?thesis
    by (simp add: check_mark_def pdf_file_def str_four)
qed

theorem console_three_status_lines_witness:
  "console utf8_world
     ([CHR 0xE2, CHR 0x9C, CHR 0x93] @ '' Test PDF created: test_providers.pdf'') = None \<and>
   console utf8_world ''  Contains 4 sample providers'' = None \<and>
   console utf8_world ''  Upload this file to test the PDF OCR feature'' = None \<and>
   stdout (snd (main Written utf8_world)) =
     [[CHR 0xE2, CHR 0x9C, CHR 0x93] @ '' Test PDF created: test_providers.pdf'',
      ''  Contains 4 sample providers'',
      ''  Upload this file to test the PDF OCR feature'']"
proof -
  have all: "console utf8_world line = None" for line
    by (simp add: utf8_world_def)
  from console_three_status_lines [OF all all all] all show ?thesis
    by blast
qed

subsection \<open>The output file\<close>

text \<open>
  C3. The name handed to the layout library is the constant \<open>test_providers.pdf\<close>,
  it has no directory part, and for any arguments, environment variables, directory
  content and console a run whose layout call returns changes the directory at that one
  path only, where it puts the story that was assembled and handed over.
\<close>

theorem output_file_name_fixed:
  "filename doc = ''test_providers.pdf'' \<and>
   CHR ''/'' \<notin> set (filename doc) \<and>
   files (snd (main Written w)) =
     (disk w)(''test_providers.pdf'' \<mapsto> story (snd (assemble (start w))))"
  by (simp add: main_files assemble_start doc_def pdf_file_def)

subsection \<open>The provider records\<close>

text \<open>
  C4. Each of the four records of the list has exactly the six keys \<open>name\<close>, \<open>npi\<close>,
  \<open>phone\<close>, \<open>address\<close>, \<open>city\<close> and \<open>specialty\<close>, and the specialty labels are
  Cardiologist, Physician, Dentist and Surgeon: in lower case, the four words of the
  data model.
\<close>

theorem provider_records_have_six_fields:
  "map dom providers_literal =
     [{''name'', ''npi'', ''phone'', ''address'', ''city'', ''specialty''},
      {''name'', ''npi'', ''phone'', ''address'', ''city'', ''specialty''},
      {''name'', ''npi'', ''phone'', ''address'', ''city'', ''specialty''},
      {''name'', ''npi'', ''phone'', ''address'', ''city'', ''specialty''}] \<and>
   map (\<lambda>p. p ''specialty'') providers_literal =
     [Some ''Cardiologist'', Some ''Physician'', Some ''Dentist'', Some ''Surgeon''] \<and>
   map (\<lambda>p. map_option (map lower_case) (p ''specialty'')) providers_literal =
     [Some ''cardiologist'', Some ''physician'', Some ''dentist'', Some ''surgeon'']"
  by (simp add: providers_literal_def insert_commute lower_case_def)

text \<open>
  C5. The loop that formats the providers leaves the list and its records as they
  were, from any state and also when it stops at a missing key; at the end of every
  run, whether the layout call returns or raises and whatever the console does, the
  list is the literal list.
\<close>

theorem providers_unchanged_by_rendering:
  "providers (snd (add_providers s)) = providers s \<and>
   providers (snd (main lib w)) = providers_literal"
  by (simp add: add_providers_def for_each_providers loop_body_providers main_providers)

subsection \<open>Failure of the layout call\<close>

text \<open>
  C6. When the layout call raises, the run ends with that same exception, uncaught,
  and nothing has been printed: none of the status lines that follow the call.
\<close>

theorem build_failure_propagates_uncaught:
  "fst (main (Raised e n) w) = Some e \<and> stdout (snd (main (Raised e n) w)) = []"
  by (simp add: main_raised)

subsection \<open>Order of the entries\<close>

text \<open>
  C7. The story that the script assembles and hands to the layout call is the two
  title blocks followed by one entry per record, in the order of the list: the entry of
  the record at position \<open>i\<close> (counted from 0) occupies the eight blocks after the
  first \<open>2 + 8 * i\<close> and carries the index \<open>i + 1\<close>. The assembling raises nothing, and
  the file written by the one layout call holds this story.
\<close>

theorem providers_rendered_in_list_order:
  "fst (assemble (start w)) = None \<and>
   story (snd (assemble (start w))) =
     title_blocks @ concat (map block (List.enumerate 1 providers_literal)) \<and>
   (i < length providers_literal \<longrightarrow>
      take 8 (drop (2 + 8 * i) (story (snd (assemble (start w))))) =
        block (Suc i, providers_literal ! i)) \<and>
   files (snd (main Written w)) pdf_file = Some (story (snd (assemble (start w))))"
proof -
  have "length title_blocks = 2" by (simp add: title_blocks_def)
  then have "i < length providers_literal \<Longrightarrow>
      take 8 (drop (2 + 8 * i) (story (snd (assemble (start w))))) =
        block (Suc i, providers_literal ! i)"
    using nth_block [of i providers_literal 1] by (simp add: assemble_start)
  then show ?thesis by (simp add: assemble_start main_files)
qed

theorem providers_rendered_in_list_order_witness:
  "2 < length providers_literal \<and>
   take 8 (drop 18 (story (snd (assemble (start utf8_world))))) =
     [Paragraph ''3. Dr. Michael Johnson'' (SheetStyle ''Heading2''),
      Spacer 1 1,
      Paragraph ''NPI: 1111111111'' (SheetStyle ''Normal''),
      Paragraph ''Phone: (555) 111-2222'' (SheetStyle ''Normal''),
      Paragraph ''789 Elm Street'' (SheetStyle ''Normal''),
      Paragraph ''Chicago, IL 60601'' (SheetStyle ''Normal''),
      Paragraph ''<b>Specialty:</b> Dentist'' (SheetStyle ''Normal''),
      Spacer 1 2]"
proof -
  have len: "2 < length providers_literal"
    by (simp add: length_providers_literal)
  have "take 8 (drop (2 + 8 * 2) (story (snd (assemble (start utf8_world))))) =
      block (Suc 2, providers_literal ! 2)"
    using providers_rendered_in_list_order [of utf8_world 2] len by blast
  moreover have "block (Suc 2, providers_literal ! 2) =
     [Paragraph ''3. Dr. Michael Johnson'' (SheetStyle ''Heading2''),
      Spacer 1 1,
      Paragraph ''NPI: 1111111111'' (SheetStyle ''Normal''),
      Paragraph ''Phone: (555) 111-2222'' (SheetStyle ''Normal''),
      Paragraph ''789 Elm Street'' (SheetStyle ''Normal''),
      Paragraph ''Chicago, IL 60601'' (SheetStyle ''Normal''),
      Paragraph ''<b>Specialty:</b> Dentist'' (SheetStyle ''Normal''),
      Spacer 1 2]"
    by (simp add: providers_literal_def block_def str.simps digit_def)
  ultimately show ?thesis using len by simp
qed

subsection \<open>Determinism\<close>




subsection \<open>The reported count\<close>

text \<open>
  C9. When the console takes the first two lines, the second console line is built
  from the length of the providers list as it is at the end of the run; that number
  prints as 4, and it is the number of provider entries of the written file.
\<close>

theorem printed_count_equals_entries:
  "(console w ([CHR 0xE2, CHR 0x9C, CHR 0x93] @ '' Test PDF created: test_providers.pdf'')
      = None \<and>
    console w ''  Contains 4 sample providers'' = None \<longrightarrow>
    stdout (snd (main Written w)) ! 1 =
      ''  Contains '' @ str (length (providers (snd (main Written w)))) @
      '' sample providers'') \<and>
   str (length (providers (snd (main Written w)))) = ''4'' \<and>
   map_option entry_count (files (snd (main Written w)) pdf_file) =
     Some (length (providers (snd (main Written w))))"
proof -
  have line: "stdout (snd (main Written w)) ! 1 =
      ''  Contains '' @ str (length providers_literal) @ '' sample providers''"
    if "console w ([CHR 0xE2, CHR 0x9C, CHR 0x93] @ '' Test PDF created: test_providers.pdf'')
          = None"
      and "console w ''  Contains 4 sample providers'' = None"
  proof -
    have "console w (check_mark @ '' Test PDF created: '' @ pdf_file) = None"
      using that(1) by (simp add: check_mark_def pdf_file_def)
    moreover have "console w
        (''  Contains '' @ str (length providers_literal) @ '' sample providers'') = None"
      using that(2) by (simp add: str_four)
    ultimately show ?thesis
      using report_second_line [of "console w"
        "\<lparr>story = [], providers = providers_literal,
          files = (disk w)(pdf_file \<mapsto>
            title_blocks @ concat (map block (List.enumerate 1 providers_literal))),
          stdout = []\<rparr>"]
      by (simp add: main_written)
  qed
  have count: "map_option entry_count (files (snd (main Written w)) pdf_file) = Some 4"
    unfolding main_files blocks_literal
    by (simp add: entry_count_def title_blocks_def title_style_def)
  have four: "str (length (providers (snd (main Written w)))) = ''4''"
    by (simp only: main_providers str_four)
  have entries: "map_option entry_count (files (snd (main Written w)) pdf_file) =
      Some (length (providers (snd (main Written w))))"
    using count by (simp only: main_providers length_providers_literal)
  have second: "stdout (snd (main Written w)) ! 1 =
      ''  Contains '' @ str (length (providers (snd (main Written w)))) @
      '' sample providers''"
    if "console w ([CHR 0xE2, CHR 0x9C, CHR 0x93] @ '' Test PDF created: test_providers.pdf'')
          = None"
      and "console w ''  Contains 4 sample providers'' = None"
    using line [OF that] by (simp only: main_providers)
  from second four entries show ?thesis
    by blast
qed

theorem printed_count_equals_entries_witness:
  "console utf8_world
     ([CHR 0xE2, CHR 0x9C, CHR 0x93] @ '' Test PDF created: test_providers.pdf'') = None \<and>
   console utf8_world ''  Contains 4 sample providers'' = None \<and>
   stdout (snd (main Written utf8_world)) ! 1 = ''  Contains 4 sample providers''"
proof -
  have all: "console utf8_world line = None" for line
    by (simp add: utf8_world_def)
  with printed_count_equals_entries [of utf8_world]
  have "stdout (snd (main Written utf8_world)) ! 1 =
      ''  Contains '' @ str (length (providers (snd (main Written utf8_world)))) @
      '' sample providers''"
    by blast
  with all show ?thesis
    by (simp add: main_providers str_four)
qed

subsection \<open>Shape of the story\<close>

text \<open>
  C10, as stated: the assembled story has \<open>2 + 7 * n\<close> blocks, 30 for the four
  providers. It has not: the story that the script assembles has a length other than
  30.
\<close>

theorem story_length_thirty_counterexample:
  "length (story (snd (assemble (start utf8_world)))) \<noteq> 30"
  by (simp add: assemble_start length_blocks title_blocks_def length_providers_literal)

text \<open>
  C10, amended: the story that the script assembles has 2 leading blocks (title
  paragraph and spacer) followed by exactly 8 blocks per provider: a heading paragraph
  that starts with the provider's 1-based index, a spacer, four normal paragraphs for
  npi, phone, address and city, the specialty paragraph with the bold \<open>Specialty:\<close>
  label as the 7th, and a trailing spacer as the 8th. That is \<open>2 + 8 * n\<close> blocks for
  the \<open>n\<close> providers of the list: 34 for its four.
\<close>

theorem story_shape_eight_per_provider:
  "fst (assemble (start w)) = None \<and>
   length (story (snd (assemble (start w)))) = 2 + 8 * length providers_literal \<and>
   length (story (snd (assemble (start w)))) = 34 \<and>
   take 2 (story (snd (assemble (start w)))) =
     [Paragraph ''Provider Directory'' title_style, Spacer 1 3] \<and>
   (\<forall>i < length providers_literal.
      take 8 (drop (2 + 8 * i) (story (snd (assemble (start w))))) =
        [Paragraph (str (Suc i) @ ''. '' @ the ((providers_literal ! i) ''name''))
           (SheetStyle ''Heading2''),
         Spacer 1 1,
         Paragraph (the ((providers_literal ! i) ''npi'')) (SheetStyle ''Normal''),
         Paragraph (the ((providers_literal ! i) ''phone'')) (SheetStyle ''Normal''),
         Paragraph (the ((providers_literal ! i) ''address'')) (SheetStyle ''Normal''),
         Paragraph (the ((providers_literal ! i) ''city'')) (SheetStyle ''Normal''),
         Paragraph (''<b>Specialty:</b> '' @ the ((providers_literal ! i) ''specialty''))
           (SheetStyle ''Normal''),
         Spacer 1 2])"
proof -
  have len: "length title_blocks = 2" by (simp add: title_blocks_def)
  have "take 8 (drop (2 + 8 * i) (story (snd (assemble (start w))))) =
      block (Suc i, providers_literal ! i)" if "i < length providers_literal" for i
    using nth_block [OF that, of 1] len by (simp add: assemble_start)
  then have blocks: "\<forall>i < length providers_literal.
      take 8 (drop (2 + 8 * i) (story (snd (assemble (start w))))) =
        block (Suc i, providers_literal ! i)"
    by blast
  have rest: "fst (assemble (start w)) = None \<and>
      length (story (snd (assemble (start w)))) = 2 + 8 * length providers_literal \<and>
      length (story (snd (assemble (start w)))) = 34 \<and>
      take 2 (story (snd (assemble (start w)))) =
        [Paragraph ''Provider Directory'' title_style, Spacer 1 3]"
    by (simp add: assemble_start length_blocks len length_providers_literal)
      (simp add: title_blocks_def)
  from blocks rest show ?thesis
    by (simp add: block_def)
qed

theorem story_shape_eight_per_provider_witness:
  "0 < length providers_literal \<and>
   take 8 (drop 2 (story (snd (assemble (start utf8_world))))) =
     [Paragraph ''1. Dr. John Smith'' (SheetStyle ''Heading2''),
      Spacer 1 1,
      Paragraph ''NPI: 1234567890'' (SheetStyle ''Normal''),
      Paragraph ''Phone: (555) 123-4567'' (SheetStyle ''Normal''),
      Paragraph ''123 Main Street'' (SheetStyle ''Normal''),
      Paragraph ''New York, NY 10001'' (SheetStyle ''Normal''),
      Paragraph ''<b>Specialty:</b> Cardiologist'' (SheetStyle ''Normal''),
      Spacer 1 2]"
proof -
  have pos: "0 < length providers_literal"
    by (simp add: length_providers_literal)
  from story_shape_eight_per_provider [of utf8_world]
  have "\<forall>i < length providers_literal.
      take 8 (drop (2 + 8 * i) (story (snd (assemble (start utf8_world))))) =
        [Paragraph (str (Suc i) @ ''. '' @ the ((providers_literal ! i) ''name''))
           (SheetStyle ''Heading2''),
         Spacer 1 1,
         Paragraph (the ((providers_literal ! i) ''npi'')) (SheetStyle ''Normal''),
         Paragraph (the ((providers_literal ! i) ''phone'')) (SheetStyle ''Normal''),
         Paragraph (the ((providers_literal ! i) ''address'')) (SheetStyle ''Normal''),
         Paragraph (the ((providers_literal ! i) ''city'')) (SheetStyle ''Normal''),
         Paragraph (''<b>Specialty:</b> '' @ the ((providers_literal ! i) ''specialty''))
           (SheetStyle ''Normal''),
         Spacer 1 2]"
    by blast
  then have "0 < length providers_literal \<longrightarrow>
      take 8 (drop (2 + 8 * 0) (story (snd (assemble (start utf8_world))))) =
        [Paragraph (str (Suc 0) @ ''. '' @ the ((providers_literal ! 0) ''name''))
           (SheetStyle ''Heading2''),
         Spacer 1 1,
         Paragraph (the ((providers_literal ! 0) ''npi'')) (SheetStyle ''Normal''),
         Paragraph (the ((providers_literal ! 0) ''phone'')) (SheetStyle ''Normal''),
         Paragraph (the ((providers_literal ! 0) ''address'')) (SheetStyle ''Normal''),
         Paragraph (the ((providers_literal ! 0) ''city'')) (SheetStyle ''Normal''),
         Paragraph (''<b>Specialty:</b> '' @ the ((providers_literal ! 0) ''specialty''))
           (SheetStyle ''Normal''),
         Spacer 1 2]"
    by (rule spec)
  with pos have "take 8 (drop 2 (story (snd (assemble (start utf8_world))))) =
     [Paragraph ''1. Dr. John Smith'' (SheetStyle ''Heading2''),
      Spacer 1 1,
      Paragraph ''NPI: 1234567890'' (SheetStyle ''Normal''),
      Paragraph ''Phone: (555) 123-4567'' (SheetStyle ''Normal''),
      Paragraph ''123 Main Street'' (SheetStyle ''Normal''),
      Paragraph ''New York, NY 10001'' (SheetStyle ''Normal''),
      Paragraph ''<b>Specialty:</b> Cardiologist'' (SheetStyle ''Normal''),
      Spacer 1 2]"
    by (simp add: providers_literal_def str.simps digit_def)
  with pos show ?thesis by simp
qed

end
